theory Spec2Isabelle
  imports Main
begin

section \<open>Requests, responses and the store\<close>

text \<open>
  The admin surface of the API is a chain of Express middlewares in front of the
  controller methods. A middleware either answers the request itself
  (\<^verbatim>\<open>sendError(response, status, message, code)\<close>), hands it on
  (\<^verbatim>\<open>next()\<close>), or throws. The members of \<^verbatim>\<open>ErrorCodes\<close> the code uses are kept
  as an enumeration.
\<close>

datatype ErrorCodes =
    AUTH_UNAUTHORIZED
  | VALD_MISSING_FIELDS
  | VALD_INVALID_ROLE
  | USER_NOT_FOUND
  | SRVR_DATABASE_ERROR

text \<open>
  The JSON values a request body can carry and that the controller passes to the
  database driver unchanged. \<open>JNaN\<close> is the number \<^verbatim>\<open>NaN\<close>, which \<^verbatim>\<open>parseInt\<close>
  returns on text that does not start with an integer.
\<close>

datatype js_value = JNumber int | JNaN | JString string | JBool bool | JNull

text \<open>The claims the token middleware attaches to an authenticated request.\<close>

record jwt_claims =
  claims_id :: int
  claims_role :: int

text \<open>
  What the code can observe of the text of a request field, through \<^verbatim>\<open>parseInt\<close>
  and through the validators \<^verbatim>\<open>notEmpty()\<close> and \<^verbatim>\<open>isInt()\<close> of the validation
  library: \<open>Empty\<close> is a field that is missing, \<^verbatim>\<open>null\<close> or the empty text;
  \<open>IntText n\<close> is an optional sign followed by decimal digits only, of value \<open>n\<close>;
  \<open>OtherText p\<close> is any other text, \<open>p\<close> being what \<^verbatim>\<open>parseInt\<close> returns on it
  (\<open>None\<close> for \<^verbatim>\<open>NaN\<close>, a number when the text starts with one).
\<close>

datatype raw_field = Empty | IntText int | OtherText "int option"

definition parseInt :: "raw_field \<Rightarrow> int option" where
  "parseInt raw = (case raw of Empty \<Rightarrow> None | IntText n \<Rightarrow> Some n | OtherText p \<Rightarrow> p)"

text \<open>
  The parts of \<^verbatim>\<open>IJwtRequest\<close> the code reads: \<open>params_id_raw\<close> is
  \<^verbatim>\<open>request.params.id\<close> and \<open>body_role_raw\<close> is \<^verbatim>\<open>request.body.role\<close>; a body
  field that is \<^verbatim>\<open>undefined\<close> is \<open>None\<close>; \<open>claims\<close> is \<open>None\<close> when no token
  middleware has run; \<open>http_method\<close> is \<^verbatim>\<open>request.method\<close>.
\<close>

record request =
  http_method :: string
  claims :: "jwt_claims option"
  params_id_raw :: raw_field
  body_role_raw :: raw_field
  body_accountStatus :: "js_value option"
  body_emailVerified :: "js_value option"
  body_phoneVerified :: "js_value option"
  targetUserRole :: "int option"

text \<open>
  \<^verbatim>\<open>parseInt(request.params.id)\<close> and \<^verbatim>\<open>parseInt(request.body.role)\<close>, with \<open>None\<close>
  for \<^verbatim>\<open>NaN\<close>.
\<close>

definition params_id :: "request \<Rightarrow> int option" where
  "params_id request = parseInt (params_id_raw request)"

definition body_role :: "request \<Rightarrow> int option" where
  "body_role request = parseInt (body_role_raw request)"

text \<open>
  The rows of the tables \<^verbatim>\<open>Account\<close> and \<^verbatim>\<open>Account_Credential\<close>. The identifier
  and the role are integers; what the other columns of \<^verbatim>\<open>Account\<close> hold is a stored
  value, which can be \<^verbatim>\<open>NULL\<close>.
\<close>

datatype cell = SqlNull | SqlInt int | SqlText string | SqlBool bool | SqlTime nat

record account =
  account_id :: int
  firstname :: cell
  lastname :: cell
  username :: cell
  email :: cell
  phone :: cell
  account_role :: int
  email_verified :: cell
  phone_verified :: cell
  account_status :: cell
  created_at :: cell
  updated_at :: cell

record credential =
  credential_account_id :: int
  salted_hash :: string
  salt :: string

text \<open>
  The columns of \<^verbatim>\<open>Account\<close>, and the values a statement can give them: a
  parameter, passed by the driver as the controller got it from the body, or the time
  of the statement (\<^verbatim>\<open>NOW()\<close>).
\<close>

datatype column =
    Account_ID | FirstName | LastName | Username | Email | Phone | Account_Role
  | Email_Verified | Phone_Verified | Account_Status | Created_At | Updated_At

datatype sqlval = Val js_value | Timestamp nat

text \<open>
  The database behind the connection pool. Its schema and its conversions are not part
  of the sources, and are parameters:
  \<^item> \<open>connected\<close>: the store answers; when it does not, the promise of
    \<^verbatim>\<open>pool.query\<close> rejects;
  \<^item> \<open>id_in_range\<close>: the numbers the type of the column \<^verbatim>\<open>Account_ID\<close> can hold; a
    statement with another number as identifier parameter is rejected;
  \<^item> \<open>input\<close>: the conversion of a value to what a column stores (the text \<^verbatim>\<open>"true"\<close>
    or the number 1 to a truth value, \<^verbatim>\<open>null\<close> to \<^verbatim>\<open>NULL\<close>, and so on), \<open>None\<close>
    when the store refuses the value for the column;
  \<^item> \<open>accepts\<close>: the constraints of the table; a statement that would store a row the
    constraints refuse is rejected as a whole.
\<close>

record database =
  Account :: "account list"
  Account_Credential :: "credential list"
  connected :: bool
  id_in_range :: "int \<Rightarrow> bool"
  input :: "column \<Rightarrow> sqlval \<Rightarrow> cell option"
  accepts :: "account \<Rightarrow> bool"

datatype 'a query_result = Rejected | Rows "'a list"

text \<open>
  The store takes a number as identifier parameter when the type of the column can hold
  it; the identifier of a stored row is such a number.
\<close>

definition takes_Account_ID :: "database \<Rightarrow> int \<Rightarrow> bool" where
  "takes_Account_ID db i = (id_in_range db i \<or> i \<in> account_id ` set (Account db))"

text \<open>What the controller puts under \<^verbatim>\<open>user\<close> in the success envelope of an update.\<close>

record user_payload =
  payload_id :: int
  payload_firstName :: cell
  payload_lastName :: cell
  payload_username :: cell
  payload_email :: cell
  payload_accountStatus :: cell
  payload_emailVerified :: cell
  payload_phoneVerified :: cell
  payload_updatedAt :: cell

text \<open>
  The answers: \<^verbatim>\<open>sendError\<close> and \<^verbatim>\<open>sendSuccess\<close> of the utilities, and the answer
  of \<^verbatim>\<open>handleValidationErrors\<close>, status 400 with the message "Validation failed" and
  the list of the failed checks, each with its field and its message.
\<close>

datatype response =
    sendError nat string ErrorCodes
  | sendSuccess user_payload string
  | validationFailed "(string \<times> string) list"

datatype outcome = Responded response | Next request | TypeError

section \<open>The role hierarchy middlewares (adminAuth.ts)\<close>

text \<open>
  \<^verbatim>\<open>SELECT Account_Role FROM Account WHERE Account_ID = $1\<close>: the roles of the rows
  with the given identifier, in table order. The query is rejected when the store does
  not answer or does not take the number as an identifier.
\<close>

definition select_Account_Role :: "database \<Rightarrow> int \<Rightarrow> int query_result" where
  "select_Account_Role db i =
     (if \<not> connected db \<or> \<not> takes_Account_ID db i then Rejected
      else Rows (map account_role (filter (\<lambda>a. account_id a = i) (Account db))))"

text \<open>
  \<^verbatim>\<open>checkRoleHierarchy\<close>, the gate in front of update, delete and password reset.
  Reading \<^verbatim>\<open>request.claims.role\<close> with no claims throws a TypeError outside the
  \<^verbatim>\<open>try\<close> block.
\<close>

definition checkRoleHierarchy :: "database \<Rightarrow> request \<Rightarrow> outcome" where
  "checkRoleHierarchy db request =
     (case claims request of
        None \<Rightarrow> TypeError
      | Some c \<Rightarrow>
          let adminRole = claims_role c; adminId = claims_id c in
          (case params_id request of
             None \<Rightarrow> Responded (sendError 400 ''Invalid user ID'' VALD_MISSING_FIELDS)
           | Some targetUserId \<Rightarrow>
               if http_method request = ''DELETE'' \<and> targetUserId = adminId
               then Responded (sendError 400 ''Cannot delete your own account'' AUTH_UNAUTHORIZED)
               else
                 (case select_Account_Role db targetUserId of
                    Rejected \<Rightarrow> Responded (sendError 500 ''Server error'' SRVR_DATABASE_ERROR)
                  | Rows rows \<Rightarrow>
                      (case rows of
                         [] \<Rightarrow> Responded (sendError 404 ''User not found'' USER_NOT_FOUND)
                       | targetRole # _ \<Rightarrow>
                           if adminRole \<le> targetRole
                           then
                             let action = (if http_method request = ''DELETE'' then ''delete'' else ''modify'')
                             in Responded (sendError 403
                                  (''Cannot '' @ action @ '' user with equal or higher role'')
                                  AUTH_UNAUTHORIZED)
                           else Next (request\<lparr>targetUserRole := Some targetRole\<rparr>)))))"

text \<open>\<^verbatim>\<open>validateRoleCreation\<close>, the gate in front of user creation.\<close>

definition validateRoleCreation :: "request \<Rightarrow> outcome" where
  "validateRoleCreation request =
     (case claims request of
        None \<Rightarrow> TypeError
      | Some c \<Rightarrow>
          let adminRole = claims_role c in
          (case body_role request of
             None \<Rightarrow> Responded (sendError 400 ''Invalid role. Must be between 1-5'' VALD_INVALID_ROLE)
           | Some newUserRole \<Rightarrow>
               if newUserRole < 1 \<or> newUserRole > 5
               then Responded (sendError 400 ''Invalid role. Must be between 1-5'' VALD_INVALID_ROLE)
               else if newUserRole > adminRole
               then Responded (sendError 403 ''Cannot create user with higher role than your own''
                      AUTH_UNAUTHORIZED)
               else Next request))"

text \<open>\<^verbatim>\<open>checkRoleChangeHierarchy\<close>, the gate in front of a role change.\<close>

definition checkRoleChangeHierarchy :: "database \<Rightarrow> request \<Rightarrow> outcome" where
  "checkRoleChangeHierarchy db request =
     (case claims request of
        None \<Rightarrow> TypeError
      | Some c \<Rightarrow>
          let adminRole = claims_role c; adminId = claims_id c in
          (case (params_id request, body_role request) of
             (Some targetUserId, Some newRole) \<Rightarrow>
               if targetUserId = adminId
               then Responded (sendError 400 ''Cannot change your own role'' AUTH_UNAUTHORIZED)
               else if newRole > adminRole
               then Responded (sendError 403 ''Cannot promote user to higher role than your own''
                      AUTH_UNAUTHORIZED)
               else
                 (case select_Account_Role db targetUserId of
                    Rejected \<Rightarrow>
                      Responded (sendError 500 ''Server error during authorization check''
                        SRVR_DATABASE_ERROR)
                  | Rows rows \<Rightarrow>
                      (case rows of
                         [] \<Rightarrow> Responded (sendError 404 ''User not found'' USER_NOT_FOUND)
                       | currentTargetRole # _ \<Rightarrow>
                           if currentTargetRole \<ge> adminRole
                           then Responded (sendError 403
                                  ''Cannot change role of user with equal or higher role''
                                  AUTH_UNAUTHORIZED)
                           else if adminRole = 3 \<and> newRole > 3
                           then Responded (sendError 403
                                  ''Admins can only assign roles up to admin level''
                                  AUTH_UNAUTHORIZED)
                           else Next request))
           | _ \<Rightarrow> Responded (sendError 400 ''Invalid user ID or role'' VALD_MISSING_FIELDS)))"

text \<open>
  Modelled from the spec: the enumeration \<^verbatim>\<open>UserRole\<close> is declared in the models
  module, which is not among the sources. The spec names the tiers: level 5 is the
  maximum tier, "Owner".
\<close>

definition UserRole_OWNER :: int where
  "UserRole_OWNER = 5"

text \<open>\<^verbatim>\<open>canModifyUser\<close>, the helper outside the request pipeline.\<close>

definition canModifyUser :: "int \<Rightarrow> int \<Rightarrow> bool" where
  "canModifyUser modifierRole targetRole =
     (if modifierRole = UserRole_OWNER then True else modifierRole > targetRole)"

text \<open>
  Modelled from the spec: \<^verbatim>\<open>UserRole.ADMIN\<close>, of the same enumeration. The spec names
  level 3 "Admin", the minimum privileged tier.
\<close>

definition UserRole_ADMIN :: int where
  "UserRole_ADMIN = 3"

text \<open>\<^verbatim>\<open>requireAdmin\<close>, which the router runs in front of every admin route.\<close>

definition requireAdmin :: "request \<Rightarrow> outcome" where
  "requireAdmin request =
     (case claims request of
        None \<Rightarrow> Responded (sendError 401 ''Authentication required'' AUTH_UNAUTHORIZED)
      | Some c \<Rightarrow>
          let userRole = claims_role c in
          if userRole < UserRole_ADMIN
          then Responded (sendError 403 ''Admin access required'' AUTH_UNAUTHORIZED)
          else Next request)"

section \<open>The role change route (validation.ts, routes/admin/index.ts)\<close>

text \<open>
  The validators of the library, on what they see of a field: \<^verbatim>\<open>notEmpty()\<close> fails
  on \<open>Empty\<close>; \<^verbatim>\<open>isInt()\<close> passes on an optional sign and decimal digits, and with
  \<^verbatim>\<open>{ min, max }\<close> only when the value is within the bounds.
\<close>

definition notEmpty :: "raw_field \<Rightarrow> bool" where
  "notEmpty raw = (raw \<noteq> Empty)"

definition isInt :: "raw_field \<Rightarrow> bool" where
  "isInt raw = (case raw of IntText n \<Rightarrow> True | _ \<Rightarrow> False)"

definition isInt_min_max :: "int \<Rightarrow> int \<Rightarrow> raw_field \<Rightarrow> bool" where
  "isInt_min_max lo hi raw = (case raw of IntText n \<Rightarrow> lo \<le> n \<and> n \<le> hi | _ \<Rightarrow> False)"

text \<open>
  \<^verbatim>\<open>validateAdminRoleChange\<close>: the two chains and \<^verbatim>\<open>handleValidationErrors\<close>. Every
  validator of a chain runs and each failure is reported with its message, in the order
  of the chains. The sanitizer \<^verbatim>\<open>toInt()\<close> replaces a field that passed by its number,
  on which \<^verbatim>\<open>parseInt\<close> gives the same number, so the request goes on as it is.
\<close>

definition validateAdminRoleChange :: "request \<Rightarrow> outcome" where
  "validateAdminRoleChange request =
     (let errors =
            (if notEmpty (params_id_raw request) then [] else [(''id'', ''User ID is required'')])
          @ (if isInt (params_id_raw request) then []
             else [(''id'', ''User ID must be an integer'')])
          @ (if notEmpty (body_role_raw request) then [] else [(''role'', ''Role is required'')])
          @ (if isInt_min_max 1 5 (body_role_raw request) then []
             else [(''role'', ''Role must be an integer between 1 and 5'')])
      in if errors = [] then Next request else Responded (validationFailed errors))"

text \<open>A handler runs when the one before it has called \<^verbatim>\<open>next()\<close>.\<close>

definition and_then :: "outcome \<Rightarrow> (request \<Rightarrow> outcome) \<Rightarrow> outcome" where
  "and_then out handler = (case out of Next request \<Rightarrow> handler request | _ \<Rightarrow> out)"

text \<open>
  What \<^verbatim>\<open>PUT /admin/users/:id/role\<close> runs in front of the controller, in the order
  the router registers the handlers. The token check that comes first is not among the
  sources; it is what attaches the claims.
\<close>

definition put_users_id_role :: "database \<Rightarrow> request \<Rightarrow> outcome" where
  "put_users_id_role db request =
     and_then (and_then (requireAdmin request) validateAdminRoleChange)
       (checkRoleChangeHierarchy db)"

section \<open>Updating an account (adminController.ts)\<close>

text \<open>
  The controller builds its statement from parts: a list of assignments
  \<^verbatim>\<open>column = $n\<close> or \<^verbatim>\<open>column = NOW()\<close>, the list of parameter values, and the
  number of the next parameter. The statement is kept as that structure, and the
  database interprets it.
\<close>

datatype sqlexpr = Param nat | NOW

type_synonym assignment = "column \<times> sqlexpr"

text \<open>
  Parameters are numbered from 1; a statement that names a parameter it was not given
  is rejected.
\<close>

fun eval_sqlexpr :: "nat \<Rightarrow> js_value list \<Rightarrow> sqlexpr \<Rightarrow> sqlval option" where
  "eval_sqlexpr now vals NOW = Some (Timestamp now)"
| "eval_sqlexpr now vals (Param n) =
     (if 1 \<le> n \<and> n \<le> length vals then Some (Val (vals ! (n - 1))) else None)"

text \<open>
  Storing a converted value in a column of a row. The identifier and the role hold
  integers only.
\<close>

fun set_column :: "column \<Rightarrow> cell \<Rightarrow> account \<Rightarrow> account option" where
  "set_column Account_ID v a =
     (case v of SqlInt n \<Rightarrow> Some (a\<lparr>account_id := n\<rparr>) | _ \<Rightarrow> None)"
| "set_column Account_Role v a =
     (case v of SqlInt n \<Rightarrow> Some (a\<lparr>account_role := n\<rparr>) | _ \<Rightarrow> None)"
| "set_column FirstName v a = Some (a\<lparr>firstname := v\<rparr>)"
| "set_column LastName v a = Some (a\<lparr>lastname := v\<rparr>)"
| "set_column Username v a = Some (a\<lparr>username := v\<rparr>)"
| "set_column Email v a = Some (a\<lparr>email := v\<rparr>)"
| "set_column Phone v a = Some (a\<lparr>phone := v\<rparr>)"
| "set_column Email_Verified v a = Some (a\<lparr>email_verified := v\<rparr>)"
| "set_column Phone_Verified v a = Some (a\<lparr>phone_verified := v\<rparr>)"
| "set_column Account_Status v a = Some (a\<lparr>account_status := v\<rparr>)"
| "set_column Created_At v a = Some (a\<lparr>created_at := v\<rparr>)"
| "set_column Updated_At v a = Some (a\<lparr>updated_at := v\<rparr>)"

text \<open>
  The \<^verbatim>\<open>SET\<close> clause, applied to one row from left to right: each value is converted
  by the store for its column (\<open>conv\<close>) and stored.
\<close>

fun apply_set ::
  "(column \<Rightarrow> sqlval \<Rightarrow> cell option) \<Rightarrow> nat \<Rightarrow> js_value list \<Rightarrow> assignment list
     \<Rightarrow> account \<Rightarrow> account option" where
  "apply_set conv now vals [] a = Some a"
| "apply_set conv now vals ((col, e) # rest) a =
     (case eval_sqlexpr now vals e of
        None \<Rightarrow> None
      | Some v \<Rightarrow>
          (case conv col v of
             None \<Rightarrow> None
           | Some stored \<Rightarrow>
               (case set_column col stored a of
                  None \<Rightarrow> None
                | Some a' \<Rightarrow> apply_set conv now vals rest a')))"

text \<open>
  One pass over the table: the rows the \<^verbatim>\<open>WHERE\<close> clause selects are replaced, the
  others kept. The result is the new table and the replaced rows (\<^verbatim>\<open>RETURNING *\<close>),
  or \<open>None\<close> when a row cannot be replaced.
\<close>

fun update_where ::
  "(account \<Rightarrow> bool) \<Rightarrow> (account \<Rightarrow> account option) \<Rightarrow> account list
     \<Rightarrow> (account list \<times> account list) option" where
  "update_where P f [] = Some ([], [])"
| "update_where P f (a # as) =
     (case update_where P f as of
        None \<Rightarrow> None
      | Some (tbl, ret) \<Rightarrow>
          if P a
          then (case f a of None \<Rightarrow> None | Some a' \<Rightarrow> Some (a' # tbl, a' # ret))
          else Some (a # tbl, ret))"

text \<open>
  \<^verbatim>\<open>UPDATE Account SET ... WHERE Account_ID = ... RETURNING *\<close>. The statement is
  atomic: when it is rejected the database is as before. It is rejected when the store
  does not answer, when the identifier parameter is not a number the store takes
  (\<^verbatim>\<open>NaN\<close> among them), when the store refuses a value for its column, or when the
  constraints refuse a new row.
\<close>

definition update_Account ::
  "database \<Rightarrow> nat \<Rightarrow> assignment list \<Rightarrow> sqlexpr \<Rightarrow> js_value list
     \<Rightarrow> account query_result \<times> database" where
  "update_Account db now sets wh vals =
     (if \<not> connected db then (Rejected, db)
      else
        (case eval_sqlexpr now vals wh of
           Some (Val (JNumber i)) \<Rightarrow>
             if \<not> takes_Account_ID db i then (Rejected, db)
             else
               (case update_where (\<lambda>a. account_id a = i)
                       (\<lambda>a. case apply_set (input db) now vals sets a of
                               None \<Rightarrow> None
                             | Some a' \<Rightarrow> if accepts db a' then Some a' else None)
                       (Account db) of
                  None \<Rightarrow> (Rejected, db)
                | Some (tbl, ret) \<Rightarrow> (Rows ret, db\<lparr>Account := tbl\<rparr>))
         | _ \<Rightarrow> (Rejected, db)))"

text \<open>
  One conditional \<^verbatim>\<open>updates.push\<close>/\<^verbatim>\<open>values.push\<close> pair of the controller, on the
  triple of \<^verbatim>\<open>updates\<close>, \<^verbatim>\<open>values\<close> and \<^verbatim>\<open>paramCount\<close>.
\<close>

definition push_update ::
  "column \<Rightarrow> js_value option \<Rightarrow> assignment list \<times> js_value list \<times> nat
     \<Rightarrow> assignment list \<times> js_value list \<times> nat" where
  "push_update col field st =
     (case field of
        None \<Rightarrow> st
      | Some v \<Rightarrow>
          (case st of (updates, vals, paramCount) \<Rightarrow>
             (updates @ [(col, Param paramCount)], vals @ [v], paramCount + 1)))"

definition user_of_row :: "account \<Rightarrow> user_payload" where
  "user_of_row r =
     \<lparr>payload_id = account_id r, payload_firstName = firstname r,
      payload_lastName = lastname r, payload_username = username r,
      payload_email = email r, payload_accountStatus = account_status r,
      payload_emailVerified = email_verified r, payload_phoneVerified = phone_verified r,
      payload_updatedAt = updated_at r\<rparr>"

text \<open>
  \<^verbatim>\<open>AdminController.updateUser\<close>, at time \<open>now\<close>: the response and the database
  afterwards. When the statement returns no row, reading \<^verbatim>\<open>result.rows[0].account_id\<close>
  throws inside the \<^verbatim>\<open>try\<close> block and the handler answers 500.
\<close>

definition updateUser :: "database \<Rightarrow> nat \<Rightarrow> request \<Rightarrow> response \<times> database" where
  "updateUser db now request =
     (let userId = (case params_id request of None \<Rightarrow> JNaN | Some n \<Rightarrow> JNumber n) in
      (case push_update Phone_Verified (body_phoneVerified request)
              (push_update Email_Verified (body_emailVerified request)
                 (push_update Account_Status (body_accountStatus request) ([], [], 1))) of
         (updates, vals, paramCount) \<Rightarrow>
           if length updates = 0
           then (sendError 400 ''No valid updates provided'' VALD_MISSING_FIELDS, db)
           else
             (case update_Account db now (updates @ [(Updated_At, NOW)]) (Param paramCount)
                     (vals @ [userId]) of
                (Rejected, db') \<Rightarrow>
                  (sendError 500 ''Failed to update user'' SRVR_DATABASE_ERROR, db')
              | (Rows [], db') \<Rightarrow>
                  (sendError 500 ''Failed to update user'' SRVR_DATABASE_ERROR, db')
              | (Rows (r # _), db') \<Rightarrow>
                  (sendSuccess (user_of_row r) ''User updated successfully'', db'))))"

text \<open>
  What an update may change in a row: restoring the status, the two verification flags
  and the update time gives the row back.
\<close>

definition same_but_status_flags :: "account \<Rightarrow> account \<Rightarrow> bool" where
  "same_but_status_flags a a' =
     (a'\<lparr>account_status := account_status a, email_verified := email_verified a,
         phone_verified := phone_verified a, updated_at := updated_at a\<rparr> = a)"

section \<open>Reading outcomes\<close>

text \<open>A middleware allows a request when it calls \<^verbatim>\<open>next()\<close>.\<close>

definition allows :: "outcome \<Rightarrow> bool" where
  "allows out = (case out of Next _ \<Rightarrow> True | _ \<Rightarrow> False)"

text \<open>The HTTP status of the error a middleware answered with, if it answered with one.\<close>

definition error_status :: "outcome \<Rightarrow> nat option" where
  "error_status out =
     (case out of
        Responded (sendError st _ _) \<Rightarrow> Some st
      | Responded (validationFailed _) \<Rightarrow> Some 400
      | _ \<Rightarrow> None)"

section \<open>Sample data\<close>

text \<open>
  A small store: two owners, an admin and a basic user. Its identifiers are 32-bit
  integers; its text columns take a text as it is and a truth value as its name; its
  truth-value columns take a truth value, the numbers 0 and 1 and a few texts; every
  column takes \<^verbatim>\<open>null\<close>; the time columns take the time of the statement; and no
  constraint refuses a row.
\<close>

definition sample_account :: "int \<Rightarrow> int \<Rightarrow> account" where
  "sample_account i r =
     \<lparr>account_id = i, firstname = SqlText ''Ada'', lastname = SqlText ''Lovelace'',
      username = SqlText ''ada'', email = SqlText ''ada@example.org'',
      phone = SqlText ''2065550100'', account_role = r,
      email_verified = SqlBool False, phone_verified = SqlBool False,
      account_status = SqlText ''active'', created_at = SqlTime 10, updated_at = SqlTime 10\<rparr>"

definition sample_truth :: "js_value \<Rightarrow> cell option" where
  "sample_truth v =
     (case v of
        JBool b \<Rightarrow> Some (SqlBool b)
      | JNumber n \<Rightarrow> (if n = 1 then Some (SqlBool True)
                      else if n = 0 then Some (SqlBool False) else None)
      | JString s \<Rightarrow> (if s \<in> {''true'', ''t'', ''yes'', ''on'', ''1''} then Some (SqlBool True)
                      else if s \<in> {''false'', ''f'', ''no'', ''off'', ''0''}
                      then Some (SqlBool False) else None)
      | JNull \<Rightarrow> Some SqlNull
      | JNaN \<Rightarrow> None)"

definition sample_text :: "js_value \<Rightarrow> cell option" where
  "sample_text v =
     (case v of
        JString s \<Rightarrow> Some (SqlText s)
      | JBool b \<Rightarrow> Some (SqlText (if b then ''true'' else ''false''))
      | JNull \<Rightarrow> Some SqlNull
      | JNaN \<Rightarrow> Some (SqlText ''NaN'')
      | JNumber n \<Rightarrow> None)"

definition sample_number :: "js_value \<Rightarrow> cell option" where
  "sample_number v =
     (case v of
        JNumber n \<Rightarrow> (if - 2147483648 \<le> n \<and> n \<le> 2147483647 then Some (SqlInt n) else None)
      | JNull \<Rightarrow> Some SqlNull
      | _ \<Rightarrow> None)"

definition sample_input :: "column \<Rightarrow> sqlval \<Rightarrow> cell option" where
  "sample_input col v =
     (case v of
        Timestamp t \<Rightarrow> (if col \<in> {Created_At, Updated_At} then Some (SqlTime t) else None)
      | Val x \<Rightarrow>
          if col \<in> {Email_Verified, Phone_Verified} then sample_truth x
          else if col \<in> {Account_ID, Account_Role} then sample_number x
          else if col \<in> {Created_At, Updated_At}
          then (case x of JNull \<Rightarrow> Some SqlNull | _ \<Rightarrow> None)
          else sample_text x)"

definition sample_db :: database where
  "sample_db =
     \<lparr>Account = [sample_account 1 5, sample_account 2 5, sample_account 3 3, sample_account 4 2],
      Account_Credential =
        [\<lparr>credential_account_id = 4, salted_hash = ''c0ffee'', salt = ''abcd''\<rparr>],
      connected = True,
      id_in_range = (\<lambda>i. - 2147483648 \<le> i \<and> i \<le> 2147483647),
      input = sample_input,
      accepts = (\<lambda>a. True)\<rparr>"

text \<open>
  Requests by an authenticated principal; the target and the role are given as what
  \<^verbatim>\<open>parseInt\<close> makes of them, a number standing for its decimal text and \<open>None\<close> for
  a text that is not a number.
\<close>

definition sample_raw :: "int option \<Rightarrow> raw_field" where
  "sample_raw p = (case p of None \<Rightarrow> OtherText None | Some n \<Rightarrow> IntText n)"

definition sample_request :: "string \<Rightarrow> int \<Rightarrow> int \<Rightarrow> int option \<Rightarrow> int option \<Rightarrow> request" where
  "sample_request m actingId actingRole target newRole =
     \<lparr>http_method = m, claims = Some \<lparr>claims_id = actingId, claims_role = actingRole\<rparr>,
      params_id_raw = sample_raw target, body_role_raw = sample_raw newRole,
      body_accountStatus = None, body_emailVerified = None, body_phoneVerified = None,
      targetUserRole = None\<rparr>"

text \<open>
  An update whose values the store converts: the flag arrives as the text
  \<^verbatim>\<open>"true"\<close>, the other flag as \<^verbatim>\<open>null\<close>.
\<close>

definition sample_update :: request where
  "sample_update =
     (sample_request ''PUT'' 1 5 (Some 4) None)
       \<lparr>body_accountStatus := Some (JString ''suspended''),
        body_emailVerified := Some (JString ''true''),
        body_phoneVerified := Some JNull\<rparr>"

section \<open>Shared facts about the target lookup\<close>

lemma filter_of_find_Some:
  "find P xs = Some a \<Longrightarrow> \<exists>ys. filter P xs = a # ys"
  by (induction xs) (auto split: if_splits)

lemma filter_of_find_None:
  "find P xs = None \<Longrightarrow> filter P xs = []"
  by (induction xs) (auto split: if_splits)

lemma takes_stored_Account_ID:
  assumes "find (\<lambda>a. account_id a = i) (Account db) = Some t"
  shows "takes_Account_ID db i"
proof -
  from assms have "t \<in> set (Account db)" and "account_id t = i"
    by (auto simp: find_Some_iff)
  then show ?thesis by (auto simp: takes_Account_ID_def)
qed

lemma select_Account_Role_found:
  assumes "connected db" and "find (\<lambda>a. account_id a = i) (Account db) = Some t"
  shows "\<exists>rest. select_Account_Role db i = Rows (account_role t # rest)"
  using assms(1) takes_stored_Account_ID [OF assms(2)] filter_of_find_Some [OF assms(2)]
  by (auto simp: select_Account_Role_def)

lemma select_Account_Role_absent:
  assumes "select_Account_Role db i \<noteq> Rejected"
    and "find (\<lambda>a. account_id a = i) (Account db) = None"
  shows "select_Account_Role db i = Rows []"
  using assms(1) filter_of_find_None [OF assms(2)]
  by (simp add: select_Account_Role_def split: if_splits)

section \<open>The decisions of the middlewares, case by case\<close>

lemma checkRoleHierarchy_self_delete:
  assumes "claims request = Some c"
    and "params_id request = Some (claims_id c)"
    and "http_method request = ''DELETE''"
  shows "checkRoleHierarchy db request =
     Responded (sendError 400 ''Cannot delete your own account'' AUTH_UNAUTHORIZED)"
  using assms by (simp add: checkRoleHierarchy_def)

lemma checkRoleHierarchy_found:
  assumes "claims request = Some c"
    and "params_id request = Some tid"
    and "\<not> (http_method request = ''DELETE'' \<and> tid = claims_id c)"
    and "connected db"
    and "find (\<lambda>a. account_id a = tid) (Account db) = Some t"
  shows "checkRoleHierarchy db request =
     (if account_role t < claims_role c
      then Next (request\<lparr>targetUserRole := Some (account_role t)\<rparr>)
      else Responded (sendError 403
             (''Cannot '' @ (if http_method request = ''DELETE'' then ''delete'' else ''modify'')
                @ '' user with equal or higher role'') AUTH_UNAUTHORIZED))"
proof -
  obtain rest where "select_Account_Role db tid = Rows (account_role t # rest)"
    using select_Account_Role_found [OF assms(4,5)] by blast
  with assms(1-3) show ?thesis
    by (auto simp: checkRoleHierarchy_def Let_def)
qed

lemma checkRoleHierarchy_absent:
  assumes "claims request = Some c"
    and "params_id request = Some tid"
    and "\<not> (http_method request = ''DELETE'' \<and> tid = claims_id c)"
    and "select_Account_Role db tid \<noteq> Rejected"
    and "find (\<lambda>a. account_id a = tid) (Account db) = None"
  shows "checkRoleHierarchy db request =
     Responded (sendError 404 ''User not found'' USER_NOT_FOUND)"
  using assms(1-3) select_Account_Role_absent [OF assms(4,5)]
  by (auto simp: checkRoleHierarchy_def Let_def)

lemma validateRoleCreation_cases:
  assumes "claims request = Some c"
  shows "validateRoleCreation request =
     (case body_role request of
        None \<Rightarrow> Responded (sendError 400 ''Invalid role. Must be between 1-5'' VALD_INVALID_ROLE)
      | Some r \<Rightarrow>
          if r < 1 \<or> 5 < r
          then Responded (sendError 400 ''Invalid role. Must be between 1-5'' VALD_INVALID_ROLE)
          else if claims_role c < r
          then Responded (sendError 403 ''Cannot create user with higher role than your own''
                 AUTH_UNAUTHORIZED)
          else Next request)"
  using assms by (simp add: validateRoleCreation_def split: option.splits)

lemma checkRoleChangeHierarchy_self:
  assumes "claims request = Some c"
    and "params_id request = Some (claims_id c)"
    and "body_role request = Some newRole"
  shows "checkRoleChangeHierarchy db request =
     Responded (sendError 400 ''Cannot change your own role'' AUTH_UNAUTHORIZED)"
  using assms by (simp add: checkRoleChangeHierarchy_def)

lemma checkRoleChangeHierarchy_ceiling:
  assumes "claims request = Some c"
    and "params_id request = Some tid"
    and "body_role request = Some newRole"
    and "tid \<noteq> claims_id c"
    and "claims_role c < newRole"
  shows "checkRoleChangeHierarchy db request =
     Responded (sendError 403 ''Cannot promote user to higher role than your own''
       AUTH_UNAUTHORIZED)"
  using assms by (simp add: checkRoleChangeHierarchy_def)

lemma checkRoleChangeHierarchy_found:
  assumes "claims request = Some c"
    and "params_id request = Some tid"
    and "body_role request = Some newRole"
    and "tid \<noteq> claims_id c"
    and "connected db"
    and "find (\<lambda>a. account_id a = tid) (Account db) = Some t"
  shows "checkRoleChangeHierarchy db request =
     (if claims_role c < newRole
      then Responded (sendError 403 ''Cannot promote user to higher role than your own''
             AUTH_UNAUTHORIZED)
      else if claims_role c \<le> account_role t
      then Responded (sendError 403 ''Cannot change role of user with equal or higher role''
             AUTH_UNAUTHORIZED)
      else if claims_role c = 3 \<and> 3 < newRole
      then Responded (sendError 403 ''Admins can only assign roles up to admin level''
             AUTH_UNAUTHORIZED)
      else Next request)"
proof -
  obtain rest where "select_Account_Role db tid = Rows (account_role t # rest)"
    using select_Account_Role_found [OF assms(5,6)] by blast
  with assms(1-4) show ?thesis
    by (auto simp: checkRoleChangeHierarchy_def Let_def)
qed

lemma checkRoleChangeHierarchy_absent:
  assumes "claims request = Some c"
    and "params_id request = Some tid"
    and "body_role request = Some newRole"
    and "tid \<noteq> claims_id c"
    and "newRole \<le> claims_role c"
    and "select_Account_Role db tid \<noteq> Rejected"
    and "find (\<lambda>a. account_id a = tid) (Account db) = None"
  shows "checkRoleChangeHierarchy db request =
     Responded (sendError 404 ''User not found'' USER_NOT_FOUND)"
  using assms(1-5) select_Account_Role_absent [OF assms(6,7)]
  by (auto simp: checkRoleChangeHierarchy_def Let_def)

lemma checkRoleChangeHierarchy_no_tier_answer:
  "checkRoleChangeHierarchy db request \<noteq>
     Responded (sendError 403 ''Admins can only assign roles up to admin level''
       AUTH_UNAUTHORIZED)"
  by (auto simp: checkRoleChangeHierarchy_def Let_def
        split: option.splits query_result.splits list.splits)

lemmas sample_defs =
  sample_request_def sample_db_def sample_account_def sample_raw_def
  params_id_def body_role_def parseInt_def

section \<open>What an update statement of the controller can change\<close>

lemma same_but_status_flags_refl: "same_but_status_flags a a"
  by (simp add: same_but_status_flags_def)

lemma same_but_status_flags_trans:
  "same_but_status_flags a b \<Longrightarrow> same_but_status_flags b c \<Longrightarrow> same_but_status_flags a c"
  by (cases a; cases b; cases c) (simp add: same_but_status_flags_def)

lemma set_column_frame:
  assumes "col \<in> {Account_Status, Email_Verified, Phone_Verified, Updated_At}"
    and "set_column col v a = Some a'"
  shows "same_but_status_flags a a'"
  using assms
  by (cases a) (auto simp: same_but_status_flags_def)

lemma apply_set_frame:
  assumes "\<forall>x \<in> set sets. fst x \<in> {Account_Status, Email_Verified, Phone_Verified, Updated_At}"
    and "apply_set conv now vals sets a = Some a'"
  shows "same_but_status_flags a a'"
  using assms
proof (induction sets arbitrary: a)
  case Nil
  then show ?case by (simp add: same_but_status_flags_refl)
next
  case (Cons x sets)
  obtain col e where x: "x = (col, e)" by (cases x)
  from Cons.prems(2) x obtain v stored b where
    v: "eval_sqlexpr now vals e = Some v" and s: "conv col v = Some stored"
    and b: "set_column col stored a = Some b"
    and rest: "apply_set conv now vals sets b = Some a'"
    by (auto split: option.splits)
  from Cons.prems(1) x have "col \<in> {Account_Status, Email_Verified, Phone_Verified, Updated_At}"
    by simp
  then have "same_but_status_flags a b" using b by (rule set_column_frame)
  moreover have "same_but_status_flags b a'"
    using Cons.IH [OF _ rest] Cons.prems(1) by simp
  ultimately show ?case by (rule same_but_status_flags_trans)
qed

lemma update_where_rows:
  assumes "update_where P f as = Some (tbl, ret)"
  shows "list_all2 (\<lambda>a a'. if P a then f a = Some a' else a' = a) as tbl"
  using assms
proof (induction as arbitrary: tbl ret)
  case Nil
  then show ?case by simp
next
  case (Cons a as)
  let ?R = "\<lambda>a a'. if P a then f a = Some a' else a' = a"
  from Cons.prems obtain tbl0 ret0 where
    rec: "update_where P f as = Some (tbl0, ret0)"
    by (auto split: option.splits)
  have tail: "list_all2 ?R as tbl0" using Cons.IH [OF rec] .
  show ?case
  proof (cases "P a")
    case True
    with Cons.prems rec obtain a' where "f a = Some a'" and "tbl = a' # tbl0"
      by (auto split: option.splits)
    with True tail show ?thesis by simp
  next
    case False
    with Cons.prems rec have "tbl = a # tbl0" by simp
    with False tail show ?thesis by simp
  qed
qed

lemma pushes_facts:
  assumes "push_update Phone_Verified f3
             (push_update Email_Verified f2
                (push_update Account_Status f1 ([], [], 1))) = (updates, vals, paramCount)"
  shows "paramCount = length vals + 1"
    and "\<forall>x \<in> set updates. fst x \<in> {Account_Status, Email_Verified, Phone_Verified, Updated_At}"
    and "f1 = None \<and> f2 = None \<and> f3 = None \<longrightarrow> updates = []"
  using assms by (auto simp: push_update_def split: option.splits)

lemma update_Account_frame:
  assumes run: "update_Account db now sets wh vals = (res, db')"
    and cols: "\<forall>x \<in> set sets. fst x \<in> {Account_Status, Email_Verified, Phone_Verified, Updated_At}"
  shows "db'\<lparr>Account := Account db\<rparr> = db"
    and "list_all2 (\<lambda>a a'. (eval_sqlexpr now vals wh \<noteq> Some (Val (JNumber (account_id a)))
                               \<longrightarrow> a' = a) \<and> same_but_status_flags a a')
           (Account db) (Account db')"
proof -
  let ?f = "\<lambda>a. case apply_set (input db) now vals sets a of
                   None \<Rightarrow> None
                 | Some a' \<Rightarrow> if accepts db a' then Some a' else None"
  let ?Q = "\<lambda>a a'. (eval_sqlexpr now vals wh \<noteq> Some (Val (JNumber (account_id a)))
                               \<longrightarrow> a' = a) \<and> same_but_status_flags a a'"
  have same: "list_all2 ?Q (Account db) (Account db)"
    by (rule list.rel_refl) (simp add: same_but_status_flags_refl)
  have "db'\<lparr>Account := Account db\<rparr> = db \<and> list_all2 ?Q (Account db) (Account db')"
  proof (cases "\<exists>i tbl ret. connected db \<and> eval_sqlexpr now vals wh = Some (Val (JNumber i))
                  \<and> takes_Account_ID db i
                  \<and> update_where (\<lambda>a. account_id a = i) ?f (Account db) = Some (tbl, ret)")
    case True
    then obtain i tbl ret where c: "connected db"
      and w: "eval_sqlexpr now vals wh = Some (Val (JNumber i))"
      and k: "takes_Account_ID db i"
      and u: "update_where (\<lambda>a. account_id a = i) ?f (Account db) = Some (tbl, ret)"
      by blast
    from run c w k u have db': "db' = db\<lparr>Account := tbl\<rparr>"
      by (simp add: update_Account_def)
    have "list_all2 (\<lambda>a a'. if account_id a = i then ?f a = Some a' else a' = a) (Account db) tbl"
      using u by (rule update_where_rows)
    then have "list_all2 ?Q (Account db) tbl"
    proof (rule list_all2_mono)
      fix a a'
      assume r: "if account_id a = i then ?f a = Some a' else a' = a"
      show "?Q a a'"
      proof (cases "account_id a = i")
        case True
        with r have "apply_set (input db) now vals sets a = Some a'"
          by (auto split: option.splits if_splits)
        with cols have "same_but_status_flags a a'" by (rule apply_set_frame)
        with True w show ?thesis by simp
      next
        case False
        with r w show ?thesis by (simp add: same_but_status_flags_refl)
      qed
    qed
    with db' show ?thesis by simp
  next
    case False
    with run have "db' = db"
      by (auto simp: update_Account_def split: if_splits option.splits sqlval.splits
            js_value.splits prod.splits)
    with same show ?thesis by simp
  qed
  then show "db'\<lparr>Account := Account db\<rparr> = db" and "list_all2 ?Q (Account db) (Account db')"
    by simp_all
qed

section \<open>The role hierarchy policy\<close>

text \<open>
  Claim C1. With the target in the store and the request not a deletion of oneself,
  \<^verbatim>\<open>checkRoleHierarchy\<close> calls \<^verbatim>\<open>next()\<close> exactly when the acting role is strictly
  greater than the target's role; with an equal or higher target role it answers 403,
  "Cannot delete/modify user with equal or higher role", whatever the method. The roles
  need not lie in 1..5 for this. An owner acting on an owner is denied.
\<close>

theorem checkRoleHierarchy_strictly_greater:
  assumes "claims request = Some c"
    and "params_id request = Some tid"
    and "\<not> (http_method request = ''DELETE'' \<and> tid = claims_id c)"
    and "connected db"
    and "find (\<lambda>a. account_id a = tid) (Account db) = Some t"
  shows "(allows (checkRoleHierarchy db request) \<longleftrightarrow> account_role t < claims_role c)
    \<and> (account_role t < claims_role c \<longrightarrow>
         checkRoleHierarchy db request = Next (request\<lparr>targetUserRole := Some (account_role t)\<rparr>))
    \<and> (claims_role c \<le> account_role t \<longrightarrow>
         checkRoleHierarchy db request =
           Responded (sendError 403
             (''Cannot '' @ (if http_method request = ''DELETE'' then ''delete'' else ''modify'')
                @ '' user with equal or higher role'') AUTH_UNAUTHORIZED))"
  using checkRoleHierarchy_found [OF assms] by (simp add: allows_def)

theorem checkRoleHierarchy_strictly_greater_witness:
  "\<not> allows (checkRoleHierarchy sample_db (sample_request ''DELETE'' 1 5 (Some 2) None))
   \<and> checkRoleHierarchy sample_db (sample_request ''DELETE'' 1 5 (Some 2) None) =
       Responded (sendError 403 ''Cannot delete user with equal or higher role''
         AUTH_UNAUTHORIZED)"
  using checkRoleHierarchy_strictly_greater
    [of "sample_request ''DELETE'' 1 5 (Some 2) None" "\<lparr>claims_id = 1, claims_role = 5\<rparr>"
        2 sample_db "sample_account 2 5"]
  by (simp add: sample_defs allows_def error_status_def)

text \<open>
  Claim C2. For a role change on another principal whose account is in the store,
  \<^verbatim>\<open>checkRoleChangeHierarchy\<close> calls \<^verbatim>\<open>next()\<close> exactly when the requested role is at
  most the acting role, the target's current role is strictly below the acting role,
  and it is not the case that the acting role is 3 and the requested role above 3;
  otherwise it answers 403 with the message of the first rule that fails, in the order
  promotion ceiling, hierarchy, tier ceiling.
\<close>

theorem checkRoleChangeHierarchy_decides:
  assumes "claims request = Some c"
    and "params_id request = Some tid"
    and "body_role request = Some newRole"
    and "tid \<noteq> claims_id c"
    and "connected db"
    and "find (\<lambda>a. account_id a = tid) (Account db) = Some t"
  shows "(allows (checkRoleChangeHierarchy db request) \<longleftrightarrow>
            newRole \<le> claims_role c \<and> account_role t < claims_role c
            \<and> \<not> (claims_role c = 3 \<and> 3 < newRole))
    \<and> checkRoleChangeHierarchy db request =
        (if claims_role c < newRole
         then Responded (sendError 403 ''Cannot promote user to higher role than your own''
                AUTH_UNAUTHORIZED)
         else if claims_role c \<le> account_role t
         then Responded (sendError 403 ''Cannot change role of user with equal or higher role''
                AUTH_UNAUTHORIZED)
         else if claims_role c = 3 \<and> 3 < newRole
         then Responded (sendError 403 ''Admins can only assign roles up to admin level''
                AUTH_UNAUTHORIZED)
         else Next request)"
  using checkRoleChangeHierarchy_found [OF assms] by (simp add: allows_def)

theorem checkRoleChangeHierarchy_decides_witness:
  "allows (checkRoleChangeHierarchy sample_db (sample_request ''PUT'' 9 4 (Some 4) (Some 3)))
   \<and> checkRoleChangeHierarchy sample_db (sample_request ''PUT'' 9 3 (Some 3) (Some 2)) =
       Responded (sendError 403 ''Cannot change role of user with equal or higher role''
         AUTH_UNAUTHORIZED)"
  using checkRoleChangeHierarchy_decides
    [of "sample_request ''PUT'' 9 4 (Some 4) (Some 3)" "\<lparr>claims_id = 9, claims_role = 4\<rparr>"
        4 3 sample_db "sample_account 4 2"]
    checkRoleChangeHierarchy_decides
    [of "sample_request ''PUT'' 9 3 (Some 3) (Some 2)" "\<lparr>claims_id = 9, claims_role = 3\<rparr>"
        3 2 sample_db "sample_account 3 3"]
  by (simp add: sample_defs allows_def error_status_def)

text \<open>
  Claim C3. For a requested role in 1..5, \<^verbatim>\<open>validateRoleCreation\<close> calls \<^verbatim>\<open>next()\<close>
  exactly when the requested role is at most the acting role, and otherwise answers 403,
  "Cannot create user with higher role than your own"; for a requested role outside 1..5
  it answers "Invalid role. Must be between 1-5" with the code for an invalid role,
  whatever the acting role.
\<close>

theorem validateRoleCreation_decides:
  assumes "claims request = Some c"
  shows "(\<forall>r. body_role request = Some r \<and> 1 \<le> r \<and> r \<le> 5 \<longrightarrow>
            (allows (validateRoleCreation request) \<longleftrightarrow> r \<le> claims_role c)
            \<and> (r \<le> claims_role c \<longrightarrow> validateRoleCreation request = Next request)
            \<and> (claims_role c < r \<longrightarrow>
                 validateRoleCreation request =
                   Responded (sendError 403 ''Cannot create user with higher role than your own''
                     AUTH_UNAUTHORIZED)))
    \<and> (\<forall>r. body_role request = Some r \<and> (r < 1 \<or> 5 < r) \<longrightarrow>
            validateRoleCreation request =
              Responded (sendError 400 ''Invalid role. Must be between 1-5'' VALD_INVALID_ROLE))"
  using validateRoleCreation_cases [OF assms] by (auto simp: allows_def)

theorem validateRoleCreation_decides_witness:
  "validateRoleCreation (sample_request ''POST'' 1 3 None (Some 3)) =
     Next (sample_request ''POST'' 1 3 None (Some 3))
   \<and> validateRoleCreation (sample_request ''POST'' 1 3 None (Some 4)) =
       Responded (sendError 403 ''Cannot create user with higher role than your own''
         AUTH_UNAUTHORIZED)
   \<and> validateRoleCreation (sample_request ''POST'' 1 5 None (Some 6)) =
       Responded (sendError 400 ''Invalid role. Must be between 1-5'' VALD_INVALID_ROLE)"
  using validateRoleCreation_decides
    [of "sample_request ''POST'' 1 3 None (Some 3)" "\<lparr>claims_id = 1, claims_role = 3\<rparr>"]
    validateRoleCreation_decides
    [of "sample_request ''POST'' 1 3 None (Some 4)" "\<lparr>claims_id = 1, claims_role = 3\<rparr>"]
    validateRoleCreation_decides
    [of "sample_request ''POST'' 1 5 None (Some 6)" "\<lparr>claims_id = 1, claims_role = 5\<rparr>"]
  by (simp add: sample_defs allows_def error_status_def)

text \<open>
  Claim C4. A \<^verbatim>\<open>DELETE\<close> whose target identifier is the acting principal's own is
  answered "Cannot delete your own account", for every acting role, every store and
  every identifier, before the target's role is looked up: a higher acting role does not
  help.
\<close>

theorem self_delete_denied:
  assumes "claims request = Some c"
    and "params_id request = Some (claims_id c)"
    and "http_method request = ''DELETE''"
  shows "checkRoleHierarchy db request =
     Responded (sendError 400 ''Cannot delete your own account'' AUTH_UNAUTHORIZED)"
  using assms by (rule checkRoleHierarchy_self_delete)

theorem self_delete_denied_witness:
  "find (\<lambda>a. account_id a = 4) (Account sample_db) = Some (sample_account 4 2)
   \<and> checkRoleHierarchy sample_db (sample_request ''DELETE'' 4 5 (Some 4) None) =
       Responded (sendError 400 ''Cannot delete your own account'' AUTH_UNAUTHORIZED)"
  using self_delete_denied
    [of "sample_request ''DELETE'' 4 5 (Some 4) None" "\<lparr>claims_id = 4, claims_role = 5\<rparr>"
        sample_db]
  by (simp add: sample_defs allows_def error_status_def)

text \<open>
  Claim C5. \<^verbatim>\<open>canModifyUser\<close> is true exactly when the modifier's role is 5 (Owner) or
  strictly greater than the target's role. So it is true for an owner on an owner, where
  \<^verbatim>\<open>checkRoleHierarchy\<close> with acting role 5 and a target of role 5 denies with 403.
\<close>

theorem canModifyUser_owner_shortcut:
  "(canModifyUser modifierRole targetRole \<longleftrightarrow> modifierRole = 5 \<or> targetRole < modifierRole)
   \<and> canModifyUser 5 5
   \<and> (claims request = Some c \<and> claims_role c = 5 \<and> params_id request = Some tid
        \<and> \<not> (http_method request = ''DELETE'' \<and> tid = claims_id c) \<and> connected db
        \<and> find (\<lambda>a. account_id a = tid) (Account db) = Some t \<and> account_role t = 5
      \<longrightarrow> \<not> allows (checkRoleHierarchy db request)
          \<and> error_status (checkRoleHierarchy db request) = Some 403)"
proof -
  have "canModifyUser modifierRole targetRole \<longleftrightarrow> modifierRole = 5 \<or> targetRole < modifierRole"
    by (simp add: canModifyUser_def UserRole_OWNER_def)
  moreover have "canModifyUser 5 5"
    by (simp add: canModifyUser_def UserRole_OWNER_def)
  moreover have "\<not> allows (checkRoleHierarchy db request)
          \<and> error_status (checkRoleHierarchy db request) = Some 403"
    if "claims request = Some c" and "claims_role c = 5" and "params_id request = Some tid"
      and "\<not> (http_method request = ''DELETE'' \<and> tid = claims_id c)" and "connected db"
      and "find (\<lambda>a. account_id a = tid) (Account db) = Some t" and "account_role t = 5"
    using checkRoleHierarchy_found [OF that(1,3,4,5,6)] that(2,7)
    by (simp add: allows_def error_status_def)
  ultimately show ?thesis by blast
qed

theorem canModifyUser_owner_shortcut_witness:
  "canModifyUser 5 5
   \<and> \<not> allows (checkRoleHierarchy sample_db (sample_request ''PUT'' 1 5 (Some 2) None))"
  using canModifyUser_owner_shortcut
    [of 5 5 "sample_request ''PUT'' 1 5 (Some 2) None" "\<lparr>claims_id = 1, claims_role = 5\<rparr>"
        2 sample_db "sample_account 2 5"]
  by (simp add: sample_defs allows_def error_status_def)

text \<open>
  Claim C6, as amended. On the role change route the validation of the requested role
  comes before the self check: with the target identifier the acting principal's own, a
  requested role that is an integer in 1..5 is answered "Cannot change your own role",
  whatever the roles and the store, before any comparison of roles and before the
  lookup; a requested role that is outside 1..5 or not an integer is answered
  "Validation failed" with the message of the role check, and the self check is never
  reached. The acting role is one the admin gate of the router lets through.
\<close>

theorem self_role_change_on_route:
  assumes "claims request = Some c"
    and "3 \<le> claims_role c"
    and "params_id_raw request = IntText (claims_id c)"
  shows "(\<forall>r. body_role_raw request = IntText r \<and> 1 \<le> r \<and> r \<le> 5 \<longrightarrow>
            put_users_id_role db request =
              Responded (sendError 400 ''Cannot change your own role'' AUTH_UNAUTHORIZED))
    \<and> (\<not> isInt_min_max 1 5 (body_role_raw request) \<longrightarrow>
            put_users_id_role db request =
              Responded (validationFailed
                ((if body_role_raw request = Empty then [(''role'', ''Role is required'')] else [])
                 @ [(''role'', ''Role must be an integer between 1 and 5'')])))"
proof -
  have admin: "requireAdmin request = Next request"
    using assms(1,2) by (simp add: requireAdmin_def UserRole_ADMIN_def)
  have route: "put_users_id_role db request =
      and_then (validateAdminRoleChange request) (checkRoleChangeHierarchy db)"
    by (simp add: put_users_id_role_def admin and_then_def)
  have self: "put_users_id_role db request =
      Responded (sendError 400 ''Cannot change your own role'' AUTH_UNAUTHORIZED)"
    if r: "body_role_raw request = IntText r" "1 \<le> r" "r \<le> 5" for r
  proof -
    have "validateAdminRoleChange request = Next request"
      using assms(3) r
      by (simp add: validateAdminRoleChange_def notEmpty_def isInt_def isInt_min_max_def)
    moreover have "checkRoleChangeHierarchy db request =
        Responded (sendError 400 ''Cannot change your own role'' AUTH_UNAUTHORIZED)"
      using assms(1)
    proof (rule checkRoleChangeHierarchy_self)
      show "params_id request = Some (claims_id c)"
        using assms(3) by (simp add: params_id_def parseInt_def)
      show "body_role request = Some r"
        using r(1) by (simp add: body_role_def parseInt_def)
    qed
    ultimately show ?thesis by (simp add: route and_then_def)
  qed
  have refused: "put_users_id_role db request =
      Responded (validationFailed
        ((if body_role_raw request = Empty then [(''role'', ''Role is required'')] else [])
         @ [(''role'', ''Role must be an integer between 1 and 5'')]))"
    if "\<not> isInt_min_max 1 5 (body_role_raw request)"
    using that assms(3)
    by (simp add: route and_then_def validateAdminRoleChange_def notEmpty_def isInt_def)
  from self refused show ?thesis by blast
qed

theorem self_role_change_on_route_witness:
  "put_users_id_role sample_db (sample_request ''PUT'' 3 3 (Some 3) (Some 2)) =
     Responded (sendError 400 ''Cannot change your own role'' AUTH_UNAUTHORIZED)
   \<and> put_users_id_role sample_db (sample_request ''PUT'' 3 3 (Some 3) None) =
       Responded (validationFailed [(''role'', ''Role must be an integer between 1 and 5'')])"
  using self_role_change_on_route
    [of "sample_request ''PUT'' 3 3 (Some 3) (Some 2)" "\<lparr>claims_id = 3, claims_role = 3\<rparr>"
        sample_db]
    self_role_change_on_route
    [of "sample_request ''PUT'' 3 3 (Some 3) None" "\<lparr>claims_id = 3, claims_role = 3\<rparr>"
        sample_db]
  by (simp add: sample_defs isInt_min_max_def)

text \<open>
  The claim as stated fails for a role outside 1..5: on the route, an admin's request on
  their own account for role 9 is answered "Validation failed", not "Cannot change your own role".
\<close>

theorem self_role_change_out_of_range_counterexample:
  "claims (sample_request ''PUT'' 3 3 (Some 3) (Some 9)) = Some \<lparr>claims_id = 3, claims_role = 3\<rparr>
   \<and> params_id (sample_request ''PUT'' 3 3 (Some 3) (Some 9)) = Some 3
   \<and> body_role (sample_request ''PUT'' 3 3 (Some 3) (Some 9)) = Some 9
   \<and> put_users_id_role sample_db (sample_request ''PUT'' 3 3 (Some 3) (Some 9)) =
       Responded (validationFailed [(''role'', ''Role must be an integer between 1 and 5'')])
   \<and> put_users_id_role sample_db (sample_request ''PUT'' 3 3 (Some 3) (Some 9)) \<noteq>
       Responded (sendError 400 ''Cannot change your own role'' AUTH_UNAUTHORIZED)"
  by (simp add: sample_defs put_users_id_role_def and_then_def requireAdmin_def
        UserRole_ADMIN_def validateAdminRoleChange_def notEmpty_def isInt_def
        isInt_min_max_def)

text \<open>
  Claim C7. An actor of role 3 asking for role 4 on another principal is answered with
  the promotion ceiling, "Cannot promote user to higher role than your own"; and no
  request at all is answered with the tier ceiling, "Admins can only assign roles up to
  admin level": when the acting role is 3 and the requested role above 3, the promotion
  ceiling has answered already.
\<close>

theorem tier_ceiling_never_answered:
  "checkRoleChangeHierarchy db request \<noteq>
     Responded (sendError 403 ''Admins can only assign roles up to admin level''
       AUTH_UNAUTHORIZED)
   \<and> (claims request' = Some c \<and> claims_role c = 3 \<and> params_id request' = Some tid
        \<and> tid \<noteq> claims_id c \<and> body_role request' = Some 4
      \<longrightarrow> checkRoleChangeHierarchy db' request' =
            Responded (sendError 403 ''Cannot promote user to higher role than your own''
              AUTH_UNAUTHORIZED))"
proof -
  have "checkRoleChangeHierarchy db' request' =
            Responded (sendError 403 ''Cannot promote user to higher role than your own''
              AUTH_UNAUTHORIZED)"
    if "claims request' = Some c" and "claims_role c = 3" and "params_id request' = Some tid"
      and "tid \<noteq> claims_id c" and "body_role request' = Some 4"
    using that(1,3,5,4) by (rule checkRoleChangeHierarchy_ceiling) (simp add: that(2))
  with checkRoleChangeHierarchy_no_tier_answer [of db request] show ?thesis by blast
qed

theorem tier_ceiling_never_answered_witness:
  "find (\<lambda>a. account_id a = 4) (Account sample_db) = Some (sample_account 4 2)
   \<and> checkRoleChangeHierarchy sample_db (sample_request ''PUT'' 3 3 (Some 4) (Some 4)) =
       Responded (sendError 403 ''Cannot promote user to higher role than your own''
         AUTH_UNAUTHORIZED)"
  using tier_ceiling_never_answered
    [of sample_db "sample_request ''PUT'' 3 3 (Some 4) (Some 4)"
        "sample_request ''PUT'' 3 3 (Some 4) (Some 4)" "\<lparr>claims_id = 3, claims_role = 3\<rparr>"
        4 sample_db]
  by (simp add: sample_defs)


section \<open>How denials and missing targets are answered\<close>

text \<open>
  Claim C8, as amended. Every denial is answered with a message of its own, and the
  status depends on the rule: the hierarchy and ceiling rules (creating above one's
  role, a target of equal or higher role, promoting above one's role) answer 403; a
  deletion of oneself, a role change of oneself and a role outside 1..5 answer 400.
\<close>

theorem denial_statuses:
  assumes "claims request = Some c"
  shows
    "(params_id request = Some (claims_id c) \<and> http_method request = ''DELETE'' \<longrightarrow>
        checkRoleHierarchy db request =
          Responded (sendError 400 ''Cannot delete your own account'' AUTH_UNAUTHORIZED))
   \<and> (params_id request = Some (claims_id c) \<and> body_role request = Some newRole \<longrightarrow>
        checkRoleChangeHierarchy db request =
          Responded (sendError 400 ''Cannot change your own role'' AUTH_UNAUTHORIZED))
   \<and> (body_role request = Some newRole \<and> (newRole < 1 \<or> 5 < newRole) \<longrightarrow>
        validateRoleCreation request =
          Responded (sendError 400 ''Invalid role. Must be between 1-5'' VALD_INVALID_ROLE))
   \<and> (body_role request = Some newRole \<and> 1 \<le> newRole \<and> newRole \<le> 5
        \<and> claims_role c < newRole \<longrightarrow>
        validateRoleCreation request =
          Responded (sendError 403 ''Cannot create user with higher role than your own''
            AUTH_UNAUTHORIZED))
   \<and> (params_id request = Some tid
        \<and> \<not> (http_method request = ''DELETE'' \<and> tid = claims_id c) \<and> connected db
        \<and> find (\<lambda>a. account_id a = tid) (Account db) = Some t
        \<and> claims_role c \<le> account_role t \<longrightarrow>
        checkRoleHierarchy db request =
          Responded (sendError 403
            (''Cannot '' @ (if http_method request = ''DELETE'' then ''delete'' else ''modify'')
               @ '' user with equal or higher role'') AUTH_UNAUTHORIZED))
   \<and> (params_id request = Some tid \<and> body_role request = Some newRole
        \<and> tid \<noteq> claims_id c \<and> claims_role c < newRole \<longrightarrow>
        checkRoleChangeHierarchy db request =
          Responded (sendError 403 ''Cannot promote user to higher role than your own''
            AUTH_UNAUTHORIZED))
   \<and> (params_id request = Some tid \<and> body_role request = Some newRole
        \<and> tid \<noteq> claims_id c \<and> newRole \<le> claims_role c \<and> connected db
        \<and> find (\<lambda>a. account_id a = tid) (Account db) = Some t
        \<and> claims_role c \<le> account_role t \<longrightarrow>
        checkRoleChangeHierarchy db request =
          Responded (sendError 403 ''Cannot change role of user with equal or higher role''
            AUTH_UNAUTHORIZED))"
proof (intro conjI impI; (elim conjE)?)
  assume "params_id request = Some (claims_id c)" and "http_method request = ''DELETE''"
  with assms show "checkRoleHierarchy db request =
          Responded (sendError 400 ''Cannot delete your own account'' AUTH_UNAUTHORIZED)"
    by (rule checkRoleHierarchy_self_delete)
next
  assume "params_id request = Some (claims_id c)" and "body_role request = Some newRole"
  with assms show "checkRoleChangeHierarchy db request =
          Responded (sendError 400 ''Cannot change your own role'' AUTH_UNAUTHORIZED)"
    by (rule checkRoleChangeHierarchy_self)
next
  assume "body_role request = Some newRole" and "newRole < 1 \<or> 5 < newRole"
  then show "validateRoleCreation request =
          Responded (sendError 400 ''Invalid role. Must be between 1-5'' VALD_INVALID_ROLE)"
    using validateRoleCreation_cases [OF assms] by auto
next
  assume "body_role request = Some newRole" and "1 \<le> newRole" and "newRole \<le> 5"
    and "claims_role c < newRole"
  then show "validateRoleCreation request =
          Responded (sendError 403 ''Cannot create user with higher role than your own''
            AUTH_UNAUTHORIZED)"
    using validateRoleCreation_cases [OF assms] by auto
next
  assume "params_id request = Some tid"
    and "\<not> (http_method request = ''DELETE'' \<and> tid = claims_id c)" and "connected db"
    and "find (\<lambda>a. account_id a = tid) (Account db) = Some t"
    and le: "claims_role c \<le> account_role t"
  from checkRoleHierarchy_found [OF assms this(1-4)] le
  show "checkRoleHierarchy db request =
          Responded (sendError 403
            (''Cannot '' @ (if http_method request = ''DELETE'' then ''delete'' else ''modify'')
               @ '' user with equal or higher role'') AUTH_UNAUTHORIZED)"
    by simp
next
  assume "params_id request = Some tid" and "body_role request = Some newRole"
    and "tid \<noteq> claims_id c" and "claims_role c < newRole"
  with assms show "checkRoleChangeHierarchy db request =
          Responded (sendError 403 ''Cannot promote user to higher role than your own''
            AUTH_UNAUTHORIZED)"
    by (rule checkRoleChangeHierarchy_ceiling)
next
  assume "params_id request = Some tid" and "body_role request = Some newRole"
    and "tid \<noteq> claims_id c" and le: "newRole \<le> claims_role c" and "connected db"
    and "find (\<lambda>a. account_id a = tid) (Account db) = Some t"
    and le': "claims_role c \<le> account_role t"
  from checkRoleChangeHierarchy_found [OF assms this(1-3,5,6)] le le'
  show "checkRoleChangeHierarchy db request =
          Responded (sendError 403 ''Cannot change role of user with equal or higher role''
            AUTH_UNAUTHORIZED)"
    by simp
qed

theorem denial_statuses_witness:
  "error_status (checkRoleHierarchy sample_db (sample_request ''DELETE'' 1 5 (Some 1) None))
     = Some 400
   \<and> error_status (checkRoleChangeHierarchy sample_db
        (sample_request ''PUT'' 1 5 (Some 1) (Some 2))) = Some 400
   \<and> error_status (checkRoleHierarchy sample_db (sample_request ''DELETE'' 3 3 (Some 1) None))
     = Some 403
   \<and> error_status (checkRoleChangeHierarchy sample_db
        (sample_request ''PUT'' 3 3 (Some 4) (Some 5))) = Some 403"
  using
    denial_statuses
    [where request = "sample_request ''DELETE'' 1 5 (Some 1) None" and c = "\<lparr>claims_id = 1, claims_role = 5\<rparr>"
       and db = sample_db and newRole = 2 and tid = 1 and t = "sample_account 1 5"]
    denial_statuses
    [where request = "sample_request ''PUT'' 1 5 (Some 1) (Some 2)" and c = "\<lparr>claims_id = 1, claims_role = 5\<rparr>"
       and db = sample_db and newRole = 2 and tid = 1 and t = "sample_account 1 5"]
    denial_statuses
    [where request = "sample_request ''DELETE'' 3 3 (Some 1) None" and c = "\<lparr>claims_id = 3, claims_role = 3\<rparr>"
       and db = sample_db and newRole = 2 and tid = 1 and t = "sample_account 1 5"]
    denial_statuses
    [where request = "sample_request ''PUT'' 3 3 (Some 4) (Some 5)" and c = "\<lparr>claims_id = 3, claims_role = 3\<rparr>"
       and db = sample_db and newRole = 5 and tid = 4 and t = "sample_account 4 2"]
  by (simp add: sample_defs error_status_def)

text \<open>
  The claim as stated fails: deleting oneself is answered with status 400, not 403.
\<close>

theorem self_delete_status_counterexample:
  "params_id (sample_request ''DELETE'' 1 5 (Some 1) None) = Some 1
   \<and> claims (sample_request ''DELETE'' 1 5 (Some 1) None) = Some \<lparr>claims_id = 1, claims_role = 5\<rparr>
   \<and> error_status (checkRoleHierarchy sample_db (sample_request ''DELETE'' 1 5 (Some 1) None))
       = Some 400
   \<and> error_status (checkRoleHierarchy sample_db (sample_request ''DELETE'' 1 5 (Some 1) None))
       \<noteq> Some 403"
  by (simp add: sample_defs checkRoleHierarchy_def error_status_def)

text \<open>
  Claim C9, as amended. With a well-formed identifier of a target that is not in the
  store and a lookup that succeeds (the query is not rejected: the store answers and
  takes the number as an identifier), \<^verbatim>\<open>checkRoleHierarchy\<close> answers 404 "User not
  found" unless the request is a deletion of oneself, and \<^verbatim>\<open>checkRoleChangeHierarchy\<close>
  answers 404 when the target is not the acting principal and the requested role is at
  most the acting role: the self checks and the promotion ceiling are decided before the
  lookup.
\<close>

theorem absent_target_not_found:
  assumes "claims request = Some c"
    and "params_id request = Some tid"
    and "select_Account_Role db tid \<noteq> Rejected"
    and "find (\<lambda>a. account_id a = tid) (Account db) = None"
  shows "(\<not> (http_method request = ''DELETE'' \<and> tid = claims_id c) \<longrightarrow>
            checkRoleHierarchy db request =
              Responded (sendError 404 ''User not found'' USER_NOT_FOUND))
    \<and> (\<forall>newRole. body_role request = Some newRole \<and> tid \<noteq> claims_id c
            \<and> newRole \<le> claims_role c \<longrightarrow>
            checkRoleChangeHierarchy db request =
              Responded (sendError 404 ''User not found'' USER_NOT_FOUND))"
  using checkRoleHierarchy_absent [OF assms(1,2) _ assms(3,4)]
    checkRoleChangeHierarchy_absent [OF assms(1,2) _ _ _ assms(3,4)]
  by blast

theorem absent_target_not_found_witness:
  "select_Account_Role sample_db 99 = Rows []
   \<and> checkRoleHierarchy sample_db (sample_request ''DELETE'' 1 5 (Some 99) None) =
       Responded (sendError 404 ''User not found'' USER_NOT_FOUND)
   \<and> checkRoleChangeHierarchy sample_db (sample_request ''PUT'' 1 5 (Some 99) (Some 2)) =
       Responded (sendError 404 ''User not found'' USER_NOT_FOUND)"
  using absent_target_not_found
    [of "sample_request ''DELETE'' 1 5 (Some 99) None" "\<lparr>claims_id = 1, claims_role = 5\<rparr>"
        99 sample_db]
    absent_target_not_found
    [of "sample_request ''PUT'' 1 5 (Some 99) (Some 2)" "\<lparr>claims_id = 1, claims_role = 5\<rparr>"
        99 sample_db]
  by (simp add: sample_defs select_Account_Role_def takes_Account_ID_def)

text \<open>
  When the lookup is rejected the answer is 500, not 404: the sample store does not take
  2147483648 as an identifier.
\<close>

lemma rejected_lookup_sample:
  "select_Account_Role sample_db 2147483648 = Rejected
   \<and> checkRoleHierarchy sample_db (sample_request ''PUT'' 1 5 (Some 2147483648) None) =
       Responded (sendError 500 ''Server error'' SRVR_DATABASE_ERROR)
   \<and> checkRoleChangeHierarchy sample_db
        (sample_request ''PUT'' 1 5 (Some 2147483648) (Some 2)) =
       Responded (sendError 500 ''Server error during authorization check''
         SRVR_DATABASE_ERROR)"
  by (simp add: sample_defs select_Account_Role_def takes_Account_ID_def
        checkRoleHierarchy_def checkRoleChangeHierarchy_def)

text \<open>
  The claim as stated fails: a role change to a role above the acting role is answered
  403 although the lookup of the target would return no row.
\<close>

theorem absent_target_ceiling_counterexample:
  "select_Account_Role sample_db 99 = Rows []
   \<and> checkRoleChangeHierarchy sample_db (sample_request ''PUT'' 3 3 (Some 99) (Some 4)) =
       Responded (sendError 403 ''Cannot promote user to higher role than your own''
         AUTH_UNAUTHORIZED)
   \<and> checkRoleChangeHierarchy sample_db (sample_request ''PUT'' 3 3 (Some 99) (Some 4)) \<noteq>
       Responded (sendError 404 ''User not found'' USER_NOT_FOUND)"
  by (simp add: sample_defs checkRoleChangeHierarchy_def select_Account_Role_def
        takes_Account_ID_def)

section \<open>The frame of an update\<close>

text \<open>
  Claim C10. \<^verbatim>\<open>updateUser\<close> changes nothing but the table \<^verbatim>\<open>Account\<close>; there, every
  row with another identifier is left as it is, and in a row of the target only the
  account status, the two verification flags and the update time may differ from before:
  role, identifier, e-mail, user name, names, phone and creation time are unchanged, and
  the credentials table is untouched. This holds whatever values the body carries and
  however the store converts them. When the body has none of the three recognised
  fields, the answer is 400 with the code for missing fields and the database is as
  before.
\<close>

theorem updateUser_frame:
  assumes "updateUser db now request = (resp, db')"
  shows "db'\<lparr>Account := Account db\<rparr> = db
    \<and> list_all2 (\<lambda>a a'. (Some (account_id a) \<noteq> params_id request \<longrightarrow> a' = a)
                          \<and> same_but_status_flags a a') (Account db) (Account db')
    \<and> (body_accountStatus request = None \<and> body_emailVerified request = None
         \<and> body_phoneVerified request = None
        \<longrightarrow> resp = sendError 400 ''No valid updates provided'' VALD_MISSING_FIELDS \<and> db' = db)"
proof -
  let ?userId = "case params_id request of None \<Rightarrow> JNaN | Some n \<Rightarrow> JNumber n"
  let ?Q = "\<lambda>a a'. (Some (account_id a) \<noteq> params_id request \<longrightarrow> a' = a)
                          \<and> same_but_status_flags a a'"
  obtain updates vals paramCount where
    p: "push_update Phone_Verified (body_phoneVerified request)
          (push_update Email_Verified (body_emailVerified request)
             (push_update Account_Status (body_accountStatus request) ([], [], 1)))
        = (updates, vals, paramCount)"
    by (rule prod_cases3)
  note facts = pushes_facts [OF p]
  show ?thesis
  proof (cases "updates = []")
    case True
    with assms p have "resp = sendError 400 ''No valid updates provided'' VALD_MISSING_FIELDS"
      and "db' = db"
      by (simp_all add: updateUser_def)
    moreover have "list_all2 ?Q (Account db) (Account db)"
      by (rule list.rel_refl) (simp add: same_but_status_flags_refl)
    ultimately show ?thesis by simp
  next
    case False
    obtain res db1 where
      u: "update_Account db now (updates @ [(Updated_At, NOW)]) (Param paramCount)
            (vals @ [?userId]) = (res, db1)"
      by (rule prod.exhaust)
    from assms p False u have db1: "db' = db1"
      by (auto simp: updateUser_def Let_def split: query_result.splits list.splits)
    have cols: "\<forall>x \<in> set (updates @ [(Updated_At, NOW)]).
                  fst x \<in> {Account_Status, Email_Verified, Phone_Verified, Updated_At}"
      using facts(2) by auto
    have wh: "eval_sqlexpr now (vals @ [?userId]) (Param paramCount) = Some (Val ?userId)"
      using facts(1) by simp
    have "list_all2 (\<lambda>a a'. (Some (Val ?userId) \<noteq> Some (Val (JNumber (account_id a)))
                               \<longrightarrow> a' = a) \<and> same_but_status_flags a a')
           (Account db) (Account db1)"
      using update_Account_frame(2) [OF u cols] unfolding wh .
    then have "list_all2 ?Q (Account db) (Account db1)"
      by (rule list_all2_mono) (auto split: option.splits)
    moreover have "db1\<lparr>Account := Account db\<rparr> = db"
      using update_Account_frame(1) [OF u cols] .
    moreover have "\<not> (body_accountStatus request = None \<and> body_emailVerified request = None
         \<and> body_phoneVerified request = None)"
      using facts(3) False by blast
    ultimately show ?thesis using db1 by auto
  qed
qed


theorem updateUser_frame_witness:
  "updateUser sample_db 77 sample_update =
     (sendSuccess
        (user_of_row ((sample_account 4 2)\<lparr>account_status := SqlText ''suspended'',
           email_verified := SqlBool True, phone_verified := SqlNull,
           updated_at := SqlTime 77\<rparr>))
        ''User updated successfully'',
      sample_db\<lparr>Account := [sample_account 1 5, sample_account 2 5, sample_account 3 3,
        (sample_account 4 2)\<lparr>account_status := SqlText ''suspended'',
           email_verified := SqlBool True, phone_verified := SqlNull,
           updated_at := SqlTime 77\<rparr>]\<rparr>)
   \<and> list_all2 (\<lambda>a a'. (Some (account_id a) \<noteq> params_id sample_update \<longrightarrow> a' = a)
                          \<and> same_but_status_flags a a')
         (Account sample_db)
         [sample_account 1 5, sample_account 2 5, sample_account 3 3,
          (sample_account 4 2)\<lparr>account_status := SqlText ''suspended'',
             email_verified := SqlBool True, phone_verified := SqlNull,
             updated_at := SqlTime 77\<rparr>]"
proof -
  have run: "updateUser sample_db 77 sample_update =
     (sendSuccess
        (user_of_row ((sample_account 4 2)\<lparr>account_status := SqlText ''suspended'',
           email_verified := SqlBool True, phone_verified := SqlNull,
           updated_at := SqlTime 77\<rparr>))
        ''User updated successfully'',
      sample_db\<lparr>Account := [sample_account 1 5, sample_account 2 5, sample_account 3 3,
        (sample_account 4 2)\<lparr>account_status := SqlText ''suspended'',
           email_verified := SqlBool True, phone_verified := SqlNull,
           updated_at := SqlTime 77\<rparr>]\<rparr>)"
    by (simp add: updateUser_def sample_update_def sample_defs push_update_def
          update_Account_def user_of_row_def takes_Account_ID_def sample_input_def
          sample_truth_def sample_text_def)
  from updateUser_frame [OF run] run show ?thesis by simp
qed

end
